theory Spec2Isabelle
  imports Complex_Main "HOL-Library.AList"
begin

section \<open>Python text operations used by the transpiler\<close>

text \<open>
  Emitted code is Python \<open>str\<close>; here it is \<open>string\<close>. The operations below are the
  ASCII behaviour of the \<open>str\<close> methods that \<open>Transpiler.py\<close> calls.
\<close>

definition nl :: char where
  "nl = CHR 0x0A"

definition term_sep :: string where
  \<comment> \<open>the statement terminator \<open>';\n'\<close>\<close>
  "term_sep = [CHR '';'', nl]"

fun join :: "string \<Rightarrow> string list \<Rightarrow> string" where
  \<comment> \<open>\<open>sep.join(xs)\<close>\<close>
  "join sep [] = []"
| "join sep [x] = x"
| "join sep (x # y # ys) = x @ sep @ join sep (y # ys)"

fun count_term :: "string \<Rightarrow> nat" where
  \<comment> \<open>\<open>s.count(';\n')\<close>: occurrences, scanned from the left without overlap\<close>
  "count_term (a # b # s) =
     (if a = CHR '';'' \<and> b = nl then Suc (count_term s) else count_term (b # s))"
| "count_term s = 0"

definition digit_char :: "nat \<Rightarrow> char" where
  "digit_char d = ''0123456789'' ! d"

fun digits :: "nat \<Rightarrow> string" where
  "digits n = (if n < 10 then [digit_char n] else digits (n div 10) @ [digit_char (n mod 10)])"

declare digits.simps [simp del]

definition show_int :: "int \<Rightarrow> string" where
  \<comment> \<open>\<open>'{}'.format(i)\<close> for a Python int\<close>
  "show_int i = (if i < 0 then CHR ''-'' # digits (nat (- i)) else digits (nat i))"

definition show_index :: "int option \<Rightarrow> string" where
  \<comment> \<open>\<open>'{}'.format(index)\<close> where the index may be \<open>None\<close>\<close>
  "show_index ix = (case ix of None \<Rightarrow> ''None'' | Some i \<Rightarrow> show_int i)"

definition is_upper :: "char \<Rightarrow> bool" where
  "is_upper c = (let n = (of_char c :: nat) in 65 \<le> n \<and> n \<le> 90)"

definition is_lower :: "char \<Rightarrow> bool" where
  "is_lower c = (let n = (of_char c :: nat) in 97 \<le> n \<and> n \<le> 122)"

definition to_upper :: "char \<Rightarrow> char" where
  "to_upper c = (if is_lower c then char_of ((of_char c :: nat) - 32) else c)"

definition to_lower :: "char \<Rightarrow> char" where
  "to_lower c = (if is_upper c then char_of ((of_char c :: nat) + 32) else c)"

definition upper :: "string \<Rightarrow> string" where
  "upper s = map to_upper s"

definition lower :: "string \<Rightarrow> string" where
  "lower s = map to_lower s"

fun title_from :: "bool \<Rightarrow> string \<Rightarrow> string" where
  \<comment> \<open>the flag says whether the previous character was a letter\<close>
  "title_from prev [] = []"
| "title_from prev (c # s) =
     (if is_upper c \<or> is_lower c
      then (if prev then to_lower c else to_upper c) # title_from True s
      else c # title_from False s)"

definition title :: "string \<Rightarrow> string" where
  \<comment> \<open>\<open>s.title()\<close>\<close>
  "title s = title_from False s"

definition startswith :: "string \<Rightarrow> string \<Rightarrow> bool" where
  "startswith s p = (take (length p) s = p)"

definition is_space :: "char \<Rightarrow> bool" where
  "is_space c = (c \<in> set [CHR '' '', CHR 0x09, CHR 0x0A, CHR 0x0B, CHR 0x0C, CHR 0x0D])"

definition is_digit :: "char \<Rightarrow> bool" where
  "is_digit c = (let n = (of_char c :: nat) in 48 \<le> n \<and> n \<le> 57)"

fun digits_value :: "nat \<Rightarrow> string \<Rightarrow> nat option" where
  \<comment> \<open>decimal digits, a single underscore allowed between two digits\<close>
  "digits_value acc [] = Some acc"
| "digits_value acc [c] =
     (if is_digit c then Some (acc * 10 + ((of_char c :: nat) - 48)) else None)"
| "digits_value acc (c # d # s) =
     (if is_digit c then
        (if d = CHR ''_'' then (case s of [] \<Rightarrow> None
            | e # _ \<Rightarrow> if is_digit e then digits_value (acc * 10 + ((of_char c :: nat) - 48)) s
                       else None)
         else digits_value (acc * 10 + ((of_char c :: nat) - 48)) (d # s))
      else None)"

definition py_int :: "string \<Rightarrow> int option" where
  \<comment> \<open>\<open>int(s)\<close> on text: surrounding whitespace, an optional sign, decimal digits;
      \<open>None\<close> is \<open>ValueError\<close>\<close>
  "py_int s =
     (let t = rev (dropWhile is_space (rev (dropWhile is_space s))) in
      case t of
        [] \<Rightarrow> None
      | c # r \<Rightarrow>
          if c = CHR ''-'' then
            (if r = [] then None else map_option (\<lambda>n. - int n) (digits_value 0 r))
          else if c = CHR ''+'' then
            (if r = [] then None else map_option int (digits_value 0 r))
          else map_option int (digits_value 0 t))"

section \<open>The syntax tree\<close>

text \<open>
  \<open>AST.py\<close> and \<open>Workshop.py\<close> are not among the sources; the node kinds and their fields
  are the ones \<open>Transpiler.py\<close> reads. The kinds covered are those of statements and
  expressions inside a rule block. \<open>Script\<close>, \<open>Rule\<close> and \<open>Ruleblock\<close> (with
  \<open>resolve_skips\<close>), which assemble the document around the lowered statements, \<open>Time\<close>
  (floating point) and \<open>Attribute\<close> (attribute tables of \<open>AST.py\<close>) are left out, and with
  \<open>Attribute\<close> the method branch of \<open>visitCall\<close>. An \<open>OWID\<close> node carries its declared
  argument list (\<open>node.args\<close>); an entry is \<open>None\<close> or a Workshop type with its
  \<open>__name__\<close> and the flattened \<open>get_values()\<close>. The fields are, in the order of the
  constructors' arguments: \<open>Function name params children\<close>, \<open>OWID name args children\<close>,
  \<open>Compare left op right\<close>, \<open>Assign left op right\<close>, \<open>If cond true_block false_block\<close>,
  \<open>While cond body\<close>, \<open>For pointer iterable body\<close>, \<open>BinaryOp left op right\<close>,
  \<open>UnaryOp op right\<close>, \<open>PlayerVar name player\<close>, \<open>String value children\<close>,
  \<open>Item parent index\<close>, \<open>Call parent args\<close>, \<open>Return value\<close>.
\<close>

datatype argspec = ArgNone | ArgType string "string list"

datatype node =
    Function string "node list" "node list"
  | Block "node list"
  | OWID string "argspec list" "node list"
  | Constant string
  | Compare node string node
  | Assign node string node
  | If node node "node option"
  | While node node
  | For node node node
  | BinaryOp node string node
  | UnaryOp string node
  | GlobalVar string
  | PlayerVar string node
  | String string "node list"
  | Number string
  | Vector "node list"
  | Array "node list"
  | Item node node
  | Call node "node list"
  | Return "node option"

fun type_name :: "node \<Rightarrow> string" where
  \<comment> \<open>\<open>type(node).__name__\<close>\<close>
  "type_name (Function _ _ _) = ''Function''"
| "type_name (Block _) = ''Block''"
| "type_name (OWID _ _ _) = ''OWID''"
| "type_name (Constant _) = ''Constant''"
| "type_name (Compare _ _ _) = ''Compare''"
| "type_name (Assign _ _ _) = ''Assign''"
| "type_name (If _ _ _) = ''If''"
| "type_name (While _ _) = ''While''"
| "type_name (For _ _ _) = ''For''"
| "type_name (BinaryOp _ _ _) = ''BinaryOp''"
| "type_name (UnaryOp _ _) = ''UnaryOp''"
| "type_name (GlobalVar _) = ''GlobalVar''"
| "type_name (PlayerVar _ _) = ''PlayerVar''"
| "type_name (String _ _) = ''String''"
| "type_name (Number _) = ''Number''"
| "type_name (Vector _) = ''Vector''"
| "type_name (Array _) = ''Array''"
| "type_name (Item _ _) = ''Item''"
| "type_name (Call _ _) = ''Call''"
| "type_name (Return _) = ''Return''"

fun children :: "node \<Rightarrow> node list" where
  \<comment> \<open>\<open>node.children\<close>, for the kinds whose children the transpiler reads; the other
      kinds are taken to have none\<close>
  "children (Block xs) = xs"
| "children (Function _ _ xs) = xs"
| "children (OWID _ _ xs) = xs"
| "children (String _ xs) = xs"
| "children (Vector xs) = xs"
| "children _ = []"

fun node_name :: "node \<Rightarrow> string option" where
  \<comment> \<open>\<open>node.name\<close>; \<open>None\<close> where the kind has no such attribute\<close>
  "node_name (Function n _ _) = Some n"
| "node_name (OWID n _ _) = Some n"
| "node_name (Constant n) = Some n"
| "node_name (GlobalVar n) = Some n"
| "node_name (PlayerVar n _) = Some n"
| "node_name _ = None"

section \<open>Scopes, bindings and transpiler state\<close>

text \<open>
  A namespace holds three kinds of objects: \<open>Variable(value, index)\<close> objects written by
  \<open>Scope.assign\<close>, raw argument nodes put there by \<open>visitCall\<close>, and the compile-time
  functions of class \<open>Builtin\<close> installed by \<open>run\<close>. A \<open>Scope\<close> with its parents is the
  list of its namespaces, innermost first; \<open>Scope.name\<close> and \<open>Scope.level\<close> are read by
  \<open>__repr__\<close> only. Objects of \<open>AST.py\<close> are taken to be truthy, as Python objects are
  unless their class says otherwise.
\<close>

datatype builtin = Range | Ceil | Floor

datatype binding = Variable node "int option" | Param node | Builtin builtin

type_synonym namespace = "(string \<times> binding) list"

type_synonym scope = "namespace list"

fun scope_get :: "scope \<Rightarrow> string \<Rightarrow> binding option" where
  \<comment> \<open>\<open>Scope.get\<close>\<close>
  "scope_get [] name = None"
| "scope_get (ns # parent) name =
     (case map_of ns name of Some v \<Rightarrow> Some v | None \<Rightarrow> scope_get parent name)"

fun scope_assign :: "string \<Rightarrow> node \<Rightarrow> int option \<Rightarrow> scope \<Rightarrow> scope" where
  \<comment> \<open>\<open>Scope.assign\<close>: always writes the innermost namespace\<close>
  "scope_assign name v ix [] = [[(name, Variable v ix)]]"
| "scope_assign name v ix (ns # parent) = AList.update name (Variable v ix) ns # parent"

definition child_scope :: "scope \<Rightarrow> scope" where
  \<comment> \<open>\<open>Scope(name=..., parent=scope)\<close>\<close>
  "child_scope sc = [] # sc"

definition restore_depth :: "nat \<Rightarrow> scope \<Rightarrow> scope" where
  \<comment> \<open>leaving child scopes: the chain of the given depth that is a suffix of the present one\<close>
  "restore_depth d sc = drop (length sc - d) sc"

record state =
  global_index :: int
  player_index :: int
  indent_level :: nat
  curblock :: "string list"

text \<open>
  The configuration holds \<open>indent_size\<close> and the two things the transpiler takes from the
  absent modules: the arithmetic of \<open>Number\<close> nodes, as a function from the operator and
  the two literal texts to its outcome, and the argument list that the constructor
  \<open>OWID(name=...)\<close> declares for an instruction name. The arithmetic either returns a
  value (for \<open>number_op\<close>, the text that \<open>'{}'.format(result)\<close> gives), or raises
  \<open>ZeroDivisionError\<close>, the one exception that \<open>visitBinaryOp\<close> handles, or is not
  determined.
\<close>

datatype 'a arith = Value 'a | ZeroDivisionError | Undetermined

record config =
  indent_size :: nat
  number_op :: "string \<Rightarrow> string \<Rightarrow> string \<Rightarrow> string arith"
  owid_args :: "string \<Rightarrow> argspec list"

datatype error =
    SyntaxError string
  | InvalidParameter string
  | NameError string
  | AttributeError string
  | NotImplementedError string
  | ReturnError node
  | PyTypeError
  | PyAttributeError
  | PyIndexError
  | PyValueError
  | PyUnboundLocalError
  | PyRecursionError
  | Unmodelled

text \<open>
  The first six are the classes of \<open>Errors\<close> that the transpiler raises, with their message
  (the module is absent; its classes are taken not to derive from the Python exceptions
  that the handlers of the source name); the \<open>Py\<close> ones are Python's own exceptions, which
  nothing but the handlers written in the source catches; \<open>Unmodelled\<close> stands where the outcome depends on \<open>AST.py\<close> in a way
  not fixed here. A visitor returns its outcome together with the scope and the state as
  they are when it returns or raises, since \<open>visitCall\<close> goes on after a \<open>ReturnError\<close>.
\<close>

type_synonym result = "(error + string) \<times> scope \<times> state"

type_synonym visitor = "node \<Rightarrow> scope \<Rightarrow> state \<Rightarrow> result"

definition and_then :: "result \<Rightarrow> (string \<Rightarrow> scope \<Rightarrow> state \<Rightarrow> result) \<Rightarrow> result" where
  "and_then r k = (case r of (Inl e, sc, st) \<Rightarrow> (Inl e, sc, st) | (Inr c, sc, st) \<Rightarrow> k c sc st)"

definition tabs :: "config \<Rightarrow> state \<Rightarrow> string" where
  "tabs cfg st = replicate (indent_size cfg * indent_level st) CHR '' ''"

definition min_wait :: string where
  "min_wait = ''Wait(0.016, Ignore Condition)''"

definition quote :: string where
  "quote = [CHR 0x27]"

fun visit_list :: "visitor \<Rightarrow> node list \<Rightarrow> scope \<Rightarrow> state \<Rightarrow> (error + string list) \<times> scope \<times> state" where
  \<comment> \<open>the loop of \<open>visit_children\<close>\<close>
  "visit_list vis [] sc st = (Inr [], sc, st)"
| "visit_list vis (x # xs) sc st =
     (case vis x sc st of
        (Inl e, sc1, st1) \<Rightarrow> (Inl e, sc1, st1)
      | (Inr c, sc1, st1) \<Rightarrow>
          (case visit_list vis xs sc1 st1 of
             (Inl e, sc2, st2) \<Rightarrow> (Inl e, sc2, st2)
           | (Inr cs, sc2, st2) \<Rightarrow> (Inr (c # cs), sc2, st2)))"

definition visit_children :: "visitor \<Rightarrow> node \<Rightarrow> scope \<Rightarrow> state \<Rightarrow> (error + string list) \<times> scope \<times> state" where
  "visit_children vis n sc st = visit_list vis (children n) sc st"

fun visit_lines :: "config \<Rightarrow> visitor \<Rightarrow> node list \<Rightarrow> scope \<Rightarrow> state \<Rightarrow> result" where
  \<comment> \<open>\<open>for line in lines: code += self.tabs + self.visit(line, scope) + ';\n'\<close>\<close>
  "visit_lines cfg vis [] sc st = (Inr [], sc, st)"
| "visit_lines cfg vis (x # xs) sc st =
     (case vis x sc st of
        (Inl e, sc1, st1) \<Rightarrow> (Inl e, sc1, st1)
      | (Inr c, sc1, st1) \<Rightarrow>
          (case visit_lines cfg vis xs sc1 st1 of
             (Inl e, sc2, st2) \<Rightarrow> (Inl e, sc2, st2)
           | (Inr rest, sc2, st2) \<Rightarrow> (Inr (tabs cfg st @ c @ term_sep @ rest), sc2, st2)))"

section \<open>Visitors of expressions\<close>

text \<open>
  Each \<open>visitX\<close> of the source is a definition of the same name. The visitor for the
  recursive calls \<open>self.visit(...)\<close> is the parameter \<open>vis\<close>; section \<open>The dispatcher\<close>
  ties the knot.
\<close>

definition visitFunction :: "node \<Rightarrow> scope \<Rightarrow> state \<Rightarrow> result" where
  "visitFunction n sc st =
     (case n of Function name params body \<Rightarrow> (Inr [], scope_assign (''gvar_'' @ name) n None sc, st)
      | _ \<Rightarrow> (Inl Unmodelled, sc, st))"

definition visitBlock :: "visitor \<Rightarrow> node \<Rightarrow> scope \<Rightarrow> state \<Rightarrow> result" where
  "visitBlock vis n sc st =
     (case visit_children vis n sc (st\<lparr>indent_level := indent_level st + 1\<rparr>) of
        (Inl e, sc1, st1) \<Rightarrow> (Inl e, sc1, st1)
      | (Inr cs, sc1, st1) \<Rightarrow> (Inr (concat cs), sc1, st1\<lparr>indent_level := indent_level st1 - 1\<rparr>))"

definition argspec_name :: "argspec \<Rightarrow> string option" where
  \<comment> \<open>\<open>arg.__name__\<close>, which \<open>None\<close> does not have\<close>
  "argspec_name a = (case a of ArgNone \<Rightarrow> None | ArgType n vs \<Rightarrow> Some n)"

fun validate_args :: "visitor \<Rightarrow> string \<Rightarrow> nat \<Rightarrow> (argspec \<times> node) list \<Rightarrow> scope \<Rightarrow> state \<Rightarrow> result" where
  \<comment> \<open>the loop over \<open>enumerate(zip(node.args, node.children))\<close>; the text returned is unused\<close>
  "validate_args vis name i [] sc st = (Inr [], sc, st)"
| "validate_args vis name i ((ArgNone, child) # rest) sc st = validate_args vis name (Suc i) rest sc st"
| "validate_args vis name i ((ArgType tn vals, child) # rest) sc st =
     (if ''ANY'' \<in> set vals then validate_args vis name (Suc i) rest sc st
      else case vis child sc st of
        (Inl e, sc1, st1) \<Rightarrow> (Inl e, sc1, st1)
      | (Inr v, sc1, st1) \<Rightarrow>
          if upper v \<in> set vals then validate_args vis name (Suc i) rest sc1 st1
          else (Inl (InvalidParameter (quote @ name @ quote @ '' expected type '' @ tn
                  @ '' for argument '' @ show_int (int i + 1) @ '', received '' @ type_name child)),
                sc1, st1))"

definition visitOWID :: "visitor \<Rightarrow> string \<Rightarrow> argspec list \<Rightarrow> node list \<Rightarrow> scope \<Rightarrow> state \<Rightarrow> result" where
  "visitOWID vis oname args chs sc st =
     (let name = title oname in
      if length args \<noteq> length chs then
        (if ArgNone \<in> set args then (Inl PyAttributeError, sc, st)
         else (Inl (SyntaxError (quote @ name @ quote @ '' expected '' @ show_int (int (length args))
                 @ '' arguments ('' @ join '', '' (map (\<lambda>a. the (argspec_name a)) args)
                 @ ''), received '' @ show_int (int (length chs)))), sc, st))
      else case validate_args vis name 0 (zip args chs) sc st of
        (Inl e, sc1, st1) \<Rightarrow> (Inl e, sc1, st1)
      | (Inr _, sc1, st1) \<Rightarrow>
          (case visit_list vis chs sc1 st1 of
             (Inl e, sc2, st2) \<Rightarrow> (Inl e, sc2, st2)
           | (Inr cs, sc2, st2) \<Rightarrow> (Inr (name @ ''('' @ join '', '' cs @ '')''), sc2, st2)))"

definition visitConstant :: "string \<Rightarrow> scope \<Rightarrow> state \<Rightarrow> result" where
  "visitConstant name sc st = (Inr (title name), sc, st)"

definition visitCompare :: "visitor \<Rightarrow> node \<Rightarrow> string \<Rightarrow> node \<Rightarrow> scope \<Rightarrow> state \<Rightarrow> result" where
  "visitCompare vis left op right sc st =
     (if lower op = ''in'' then
        and_then (vis right sc st) (\<lambda>r sc1 st1. and_then (vis left sc1 st1) (\<lambda>l sc2 st2.
          (Inr (''Array Contains('' @ r @ '', '' @ l @ '')''), sc2, st2)))
      else if lower op = ''not in'' then
        and_then (vis right sc st) (\<lambda>r sc1 st1. and_then (vis left sc1 st1) (\<lambda>l sc2 st2.
          (Inr (''Not(Array Contains('' @ r @ '', '' @ l @ ''))''), sc2, st2)))
      else
        and_then (vis left sc st) (\<lambda>l sc1 st1. and_then (vis right sc1 st1) (\<lambda>r sc2 st2.
          (Inr (''Compare('' @ l @ '', '' @ op @ '', '' @ r @ '')''), sc2, st2))))"

definition fold_ops :: "string list" where
  \<comment> \<open>the keys of \<open>func\<close> in \<open>visitBinaryOp\<close>\<close>
  "fold_ops = [''+'', ''-'', ''*'', ''/'', ''^'', ''%'']"

definition op_instruction :: "string \<Rightarrow> string option" where
  \<comment> \<open>the second dictionary of \<open>visitBinaryOp\<close>\<close>
  "op_instruction op = map_of
     [(''+'', ''Add''), (''-'', ''Subtract''), (''*'', ''Multiply''), (''/'', ''Divide''),
      (''^'', ''Raise To Power''), (''%'', ''Modulo''), (''or'', ''Or''), (''and'', ''And'')] op"

definition visitBinaryOp :: "config \<Rightarrow> visitor \<Rightarrow> node \<Rightarrow> string \<Rightarrow> node \<Rightarrow> scope \<Rightarrow> state \<Rightarrow> result" where
  "visitBinaryOp cfg vis left op right sc st =
     (let native =
        and_then (vis left sc st) (\<lambda>l sc1 st1. and_then (vis right sc1 st1) (\<lambda>r sc2 st2.
          case op_instruction op of
            None \<Rightarrow> (Inl PyTypeError, sc2, st2)
          | Some ins \<Rightarrow> (Inr (ins @ ''('' @ l @ '', '' @ r @ '')''), sc2, st2)))
      in case (left, right) of
        (Number a, Number b) \<Rightarrow>
          if op \<in> set fold_ops then
            (case number_op cfg op a b of
               Value r \<Rightarrow> vis (Number r) sc st
             | ZeroDivisionError \<Rightarrow> vis (Number ''0'') sc st
             | Undetermined \<Rightarrow> (Inl Unmodelled, sc, st))
          else native
      | _ \<Rightarrow> native)"

definition visitUnaryOp :: "visitor \<Rightarrow> string \<Rightarrow> node \<Rightarrow> scope \<Rightarrow> state \<Rightarrow> result" where
  "visitUnaryOp vis op right sc st =
     (if op = ''-'' then and_then (vis right sc st) (\<lambda>r sc1 st1. (Inr (''-'' @ r), sc1, st1))
      else if op = ''+'' then and_then (vis right sc st) (\<lambda>r sc1 st1. (Inr (''Abs('' @ r @ '')''), sc1, st1))
      else if op = ''not'' then and_then (vis right sc st) (\<lambda>r sc1 st1. (Inr (''Not('' @ r @ '')''), sc1, st1))
      else (Inl PyUnboundLocalError, sc, st))"

definition visitGlobalVar :: "visitor \<Rightarrow> string \<Rightarrow> scope \<Rightarrow> state \<Rightarrow> result" where
  "visitGlobalVar vis name sc st =
     (case scope_get sc name of
        None \<Rightarrow> (Inl (NameError (quote @ drop 5 name @ quote @ '' is undefined'')), sc, st)
      | Some (Param p) \<Rightarrow> vis p sc st
      | Some (Builtin b) \<Rightarrow> (Inl PyAttributeError, sc, st)
      | Some (Variable (String v cs) ix) \<Rightarrow> (Inr v, sc, st)
      | Some (Variable _ ix) \<Rightarrow>
          (Inr (''Value In Array(Global Variable(A), '' @ show_index ix @ '')''), sc, st))"

definition visitPlayerVar :: "visitor \<Rightarrow> string \<Rightarrow> node \<Rightarrow> scope \<Rightarrow> state \<Rightarrow> result" where
  "visitPlayerVar vis name player sc st =
     (case scope_get sc name of
        None \<Rightarrow> (Inl (NameError (''pvar '' @ quote @ drop 5 name @ quote @ '' is undefined'')), sc, st)
      | Some (Param p) \<Rightarrow> vis p sc st
      | Some (Builtin b) \<Rightarrow> (Inl PyAttributeError, sc, st)
      | Some (Variable (String v cs) ix) \<Rightarrow> (Inr v, sc, st)
      | Some (Variable _ ix) \<Rightarrow>
          and_then (vis player sc st) (\<lambda>p sc1 st1.
            (Inr (''Value In Array(Player Variable('' @ p @ '', A), '' @ show_index ix @ '')''), sc1, st1)))"

definition visitString :: "visitor \<Rightarrow> string \<Rightarrow> node list \<Rightarrow> scope \<Rightarrow> state \<Rightarrow> result" where
  "visitString vis v chs sc st =
     (case visit_list vis chs sc st of
        (Inl e, sc1, st1) \<Rightarrow> (Inl e, sc1, st1)
      | (Inr cs, sc1, st1) \<Rightarrow>
          (Inr (''String('' @ [CHR 0x22] @ title v @ [CHR 0x22] @ '', '' @ join '', '' cs @ '')''), sc1, st1))"

definition visitNumber :: "string \<Rightarrow> scope \<Rightarrow> state \<Rightarrow> result" where
  "visitNumber v sc st = (Inr v, sc, st)"

definition visitVector :: "visitor \<Rightarrow> node list \<Rightarrow> scope \<Rightarrow> state \<Rightarrow> result" where
  "visitVector vis chs sc st =
     (case visit_list vis chs sc st of
        (Inl e, sc1, st1) \<Rightarrow> (Inl e, sc1, st1)
      | (Inr cs, sc1, st1) \<Rightarrow> (Inr (''Vector('' @ join '', '' cs @ '')''), sc1, st1))"

fun null_elem :: "node \<Rightarrow> node" where
  \<comment> \<open>the first loop of \<open>visitArray\<close>\<close>
  "null_elem (String v cs) = Constant ''Null''"
| "null_elem (Constant n) = Constant ''Null''"
| "null_elem e = e"

definition visitArray :: "visitor \<Rightarrow> node list \<Rightarrow> scope \<Rightarrow> state \<Rightarrow> result" where
  "visitArray vis elems sc st =
     (if elems = [] then (Inr ''Empty Array'', sc, st)
      else let elements = map null_elem elems; num_elems = length elements in
        if num_elems = 0 then (Inr ''Empty Array'', sc, st)
        else case visit_list vis elements sc st of
          (Inl e, sc1, st1) \<Rightarrow> (Inl e, sc1, st1)
        | (Inr cs, sc1, st1) \<Rightarrow>
            (Inr (concat (replicate num_elems ''Append To Array('') @ ''Empty Array, ''
                  @ join ''), '' cs @ '')''), sc1, st1))"

definition visitReturn :: "node option \<Rightarrow> scope \<Rightarrow> state \<Rightarrow> result" where
  "visitReturn v sc st =
     (case v of Some e \<Rightarrow> (Inl (ReturnError e), sc, st) | None \<Rightarrow> (Inr [], sc, st))"

section \<open>Arrays, items and assignment\<close>

text \<open>
  \<open>var.value[index]\<close> and \<open>var.value[index] = value\<close> go through the item methods of class
  \<open>Array\<close> (in \<open>AST.py\<close>); they are taken to be those of the Python list \<open>elements\<close>: a
  negative index counts from the end and an index out of range raises \<open>IndexError\<close>, which
  is what the handler in \<open>visitItem\<close> expects. The model stores values, not objects: the
  assignment to an element updates the binding it was found in, and an array literal that
  is lowered a second time is lowered as written.
\<close>

definition list_index :: "'a list \<Rightarrow> int \<Rightarrow> nat option" where
  \<comment> \<open>the position a Python list index denotes; \<open>None\<close> is \<open>IndexError\<close>\<close>
  "list_index xs i =
     (if 0 \<le> i \<and> i < int (length xs) then Some (nat i)
      else if i < 0 \<and> - int (length xs) \<le> i then Some (nat (int (length xs) + i))
      else None)"

datatype subscript = Element node | OutOfRange | NotSubscriptable error

definition binding_item :: "binding \<Rightarrow> int \<Rightarrow> subscript" where
  \<comment> \<open>\<open>var.value[index]\<close>\<close>
  "binding_item var k =
     (case var of
        Variable (Array es) ix \<Rightarrow>
          (case list_index es k of Some j \<Rightarrow> Element (es ! j) | None \<Rightarrow> OutOfRange)
      | Variable _ ix \<Rightarrow> NotSubscriptable PyTypeError
      | Param (Number v) \<Rightarrow>
          (case list_index v k of Some j \<Rightarrow> NotSubscriptable PyAttributeError | None \<Rightarrow> OutOfRange)
      | Param (String v cs) \<Rightarrow>
          (case list_index v k of Some j \<Rightarrow> NotSubscriptable PyAttributeError | None \<Rightarrow> OutOfRange)
      | Param (Return v) \<Rightarrow> NotSubscriptable Unmodelled
      | Param _ \<Rightarrow> NotSubscriptable PyAttributeError
      | Builtin b \<Rightarrow> NotSubscriptable PyAttributeError)"

definition is_var_node :: "node \<Rightarrow> bool" where
  \<comment> \<open>\<open>type(node) in (GlobalVar, PlayerVar)\<close>\<close>
  "is_var_node n = (case n of GlobalVar _ \<Rightarrow> True | PlayerVar _ _ \<Rightarrow> True | _ \<Rightarrow> False)"

definition visitItem :: "visitor \<Rightarrow> node \<Rightarrow> node \<Rightarrow> scope \<Rightarrow> state \<Rightarrow> result" where
  "visitItem vis parent index sc st =
     (let generic = (\<lambda>sc0 st0.
        and_then (vis parent sc0 st0) (\<lambda>p sc1 st1. and_then (vis index sc1 st1) (\<lambda>i sc2 st2.
          (Inr (''Value In Array('' @ p @ '', '' @ i @ '')''), sc2, st2))))
      in case index of
        Number v \<Rightarrow>
          if is_var_node parent then
            (case py_int v of
               None \<Rightarrow> generic sc st
             | Some k \<Rightarrow>
                 (case scope_get sc (the (node_name parent)) of
                    None \<Rightarrow>
                      (Inl (NameError ((case parent of PlayerVar _ _ \<Rightarrow> ''pvar '' | _ \<Rightarrow> [])
                         @ quote @ drop 5 (the (node_name parent)) @ quote @ '' is undefined'')), sc, st)
                  | Some var \<Rightarrow>
                      (case binding_item var k of
                         NotSubscriptable e \<Rightarrow> (Inl e, sc, st)
                       | sub \<Rightarrow>
                           (case vis (case sub of Element item \<Rightarrow> item | _ \<Rightarrow> Number ''0'') sc st of
                              (Inl PyValueError, sc1, st1) \<Rightarrow> generic (restore_depth (length sc) sc1) st1
                            | r \<Rightarrow> r))))
          else generic sc st
      | _ \<Rightarrow> generic sc st)"

definition assign_value :: "node \<Rightarrow> string \<Rightarrow> node \<Rightarrow> node" where
  \<comment> \<open>the dictionary at the head of \<open>visitAssign\<close>\<close>
  "assign_value left op right =
     (if op \<in> set [''+='', ''-='', ''*='', ''/='', ''^='', ''%='']
      then BinaryOp left (take 1 op) right else right)"

datatype player_ref = PlayerNode node | PlayerText string | PlayerNone | PlayerUnbound

definition var_index :: "binding option \<Rightarrow> int \<Rightarrow> error + (int option \<times> bool)" where
  \<comment> \<open>\<open>var.index if var else next(counter)\<close>; the flag says that the counter was drawn\<close>
  "var_index var counter =
     (case var of
        None \<Rightarrow> Inr (Some counter, True)
      | Some (Variable v ix) \<Rightarrow> Inr (ix, False)
      | Some (Param (Item p i)) \<Rightarrow> Inl Unmodelled
      | Some (Param _) \<Rightarrow> Inl PyAttributeError
      | Some (Builtin b) \<Rightarrow> Inl PyAttributeError)"

fun set_item :: "scope \<Rightarrow> string \<Rightarrow> int \<Rightarrow> node \<Rightarrow> error + (node \<times> scope)" where
  \<comment> \<open>\<open>var = scope.get(name); var.value[index] = value\<close>: the array after the store, and
      the chain with the binding found holding it\<close>
  "set_item [] name k v = Inl PyAttributeError"
| "set_item (ns # parent) name k v =
     (case map_of ns name of
        None \<Rightarrow> (case set_item parent name k v of Inl e \<Rightarrow> Inl e | Inr (a, parent') \<Rightarrow> Inr (a, ns # parent'))
      | Some (Variable (Array es) ix) \<Rightarrow>
          (case list_index es k of
             None \<Rightarrow> Inl PyIndexError
           | Some j \<Rightarrow> Inr (Array (es[j := v]), AList.update name (Variable (Array (es[j := v])) ix) ns # parent))
      | Some (Variable _ ix) \<Rightarrow> Inl PyTypeError
      | Some (Param (Number _)) \<Rightarrow> Inl PyTypeError
      | Some (Param (String _ _)) \<Rightarrow> Inl PyTypeError
      | Some (Param (Return _)) \<Rightarrow> Inl Unmodelled
      | Some (Param _) \<Rightarrow> Inl PyAttributeError
      | Some (Builtin b) \<Rightarrow> Inl PyAttributeError)"

definition assign_target ::
  "visitor \<Rightarrow> node \<Rightarrow> node \<Rightarrow> scope \<Rightarrow> state
    \<Rightarrow> (error + (string \<times> int option \<times> player_ref \<times> node)) \<times> scope \<times> state" where
  \<comment> \<open>the part of \<open>visitAssign\<close> under \<open># Define variables\<close>: name, index, player and value\<close>
  "assign_target vis left v sc st =
     (case left of
        GlobalVar name \<Rightarrow>
          (case var_index (scope_get sc name) (global_index st) of
             Inl e \<Rightarrow> (Inl e, sc, st)
           | Inr (ix, drawn) \<Rightarrow>
               (Inr (name, ix, PlayerUnbound, v), scope_assign name v ix sc,
                if drawn then st\<lparr>global_index := global_index st + 1\<rparr> else st))
      | PlayerVar name player \<Rightarrow>
          (case var_index (scope_get sc name) (player_index st) of
             Inl e \<Rightarrow> (Inl e, sc, st)
           | Inr (ix, drawn) \<Rightarrow>
               (Inr (name, ix, PlayerNode player, v), scope_assign name v ix sc,
                if drawn then st\<lparr>player_index := player_index st + 1\<rparr> else st))
      | Item parent index \<Rightarrow>
          (case node_name parent of
             None \<Rightarrow> (Inl PyAttributeError, sc, st)
           | Some name \<Rightarrow>
               (case vis index sc st of
                  (Inl PyValueError, sc1, st1) \<Rightarrow>
                    (Inl (NotImplementedError ''Array assignment only supports literal indices''), sc1, st1)
                | (Inl e, sc1, st1) \<Rightarrow> (Inl e, sc1, st1)
                | (Inr txt, sc1, st1) \<Rightarrow>
                    (case py_int txt of
                       None \<Rightarrow>
                         (Inl (NotImplementedError ''Array assignment only supports literal indices''), sc1, st1)
                     | Some k \<Rightarrow>
                         (case set_item sc1 name k v of
                            Inl e \<Rightarrow> (Inl e, sc1, st1)
                          | Inr (arr, sc2) \<Rightarrow>
                              (case parent of
                                 PlayerVar pn player \<Rightarrow>
                                   (case vis player sc2 st1 of
                                      (Inl e, sc3, st3) \<Rightarrow> (Inl e, sc3, st3)
                                    | (Inr p, sc3, st3) \<Rightarrow>
                                        (Inr (name, Some k, PlayerText p, arr),
                                         scope_assign name arr (Some k) sc3, st3))
                               | _ \<Rightarrow>
                                   (Inr (name, Some k, PlayerNone, arr),
                                    scope_assign name arr (Some k) sc2, st1))))))
      | _ \<Rightarrow>
          (Inl (NotImplementedError (''Assign to '' @ quote @ type_name left @ quote @ '' not implemented'')),
           sc, st))"

definition visit_player :: "visitor \<Rightarrow> player_ref \<Rightarrow> scope \<Rightarrow> state \<Rightarrow> result" where
  \<comment> \<open>\<open>self.visit(player, scope)\<close>, where \<open>player\<close> may be a node, a text, \<open>None\<close> or unbound\<close>
  "visit_player vis p sc st =
     (case p of
        PlayerNode n \<Rightarrow> vis n sc st
      | PlayerText t \<Rightarrow> (Inl PyAttributeError, sc, st)
      | PlayerNone \<Rightarrow> (Inl PyAttributeError, sc, st)
      | PlayerUnbound \<Rightarrow> (Inl PyUnboundLocalError, sc, st))"

definition visitAssign :: "visitor \<Rightarrow> node \<Rightarrow> string \<Rightarrow> node \<Rightarrow> scope \<Rightarrow> state \<Rightarrow> result" where
  "visitAssign vis left op right sc st =
     (case assign_target vis left (assign_value left op right) sc st of
        (Inl e, sc1, st1) \<Rightarrow> (Inl e, sc1, st1)
      | (Inr (name, ix, player, v), sc1, st1) \<Rightarrow>
          if startswith name ''gvar_'' then
            and_then (vis v sc1 st1) (\<lambda>c sc2 st2.
              (Inr (''Set Global Variable At Index(A, '' @ show_index ix @ '', '' @ c @ '')''), sc2, st2))
          else if startswith name ''pvar_'' then
            and_then (visit_player vis player sc1 st1) (\<lambda>p sc2 st2.
              and_then (vis v sc2 st2) (\<lambda>c sc3 st3.
                (Inr (''Set Player Variable At Index('' @ p @ '', A, '' @ show_index ix @ '', '' @ c @ '')''),
                 sc3, st3)))
          else (Inr [], sc1, st1))"

section \<open>Control flow\<close>

definition is_If :: "node \<Rightarrow> bool" where
  "is_If n = (case n of If _ _ _ \<Rightarrow> True | _ \<Rightarrow> False)"

definition visitIf :: "config \<Rightarrow> visitor \<Rightarrow> node \<Rightarrow> node \<Rightarrow> node option \<Rightarrow> scope \<Rightarrow> state \<Rightarrow> result" where
  "visitIf cfg vis cond true_block false_block sc st =
     and_then (vis cond sc st) (\<lambda>c sc1 st1.
       case visit_children vis true_block sc1 st1 of
         (Inl e, sc2, st2) \<Rightarrow> (Inl e, sc2, st2)
       | (Inr ts, sc2, st2) \<Rightarrow>
           (let true_code = concat ts in
            case false_block of
              None \<Rightarrow>
                (Inr (''Skip If(Not('' @ c @ ''), '' @ show_int (int (count_term true_code)) @ '')''
                      @ term_sep @ true_code), sc2, st2)
            | Some fb \<Rightarrow>
                and_then (if is_If fb then vis fb sc2 st2 else visit_lines cfg vis (children fb) sc2 st2)
                  (\<lambda>false_code sc3 st3.
                     (Inr (''Skip If(Not('' @ c @ ''), '' @ show_int (int (count_term true_code) + 1) @ '')''
                           @ term_sep @ true_code
                           @ tabs cfg st2
                           @ (if false_code \<noteq> []
                              then ''Skip('' @ show_int (int (count_term false_code) + (if is_If fb then 1 else 0)) @ '')''
                              else ''Skip({})'')
                           @ term_sep @ false_code), sc3, st3))))"

definition visitWhile :: "config \<Rightarrow> visitor \<Rightarrow> node \<Rightarrow> node \<Rightarrow> scope \<Rightarrow> state \<Rightarrow> result" where
  "visitWhile cfg vis cond body sc st =
     (let lines = int (length (children body)) + 2 in
      and_then (vis cond sc st) (\<lambda>c sc1 st1.
        and_then (visit_lines cfg vis (children body) sc1 st1) (\<lambda>b sc2 st2.
          and_then (vis cond sc2 st2) (\<lambda>c2 sc3 st3.
            (Inr (''Skip If(Not('' @ c @ ''), '' @ show_int lines @ '')'' @ term_sep
                  @ b
                  @ tabs cfg st2 @ min_wait @ term_sep
                  @ tabs cfg st2 @ ''Loop If('' @ c2 @ '')''), sc3, st3)))))"

definition for_array :: "node \<Rightarrow> scope \<Rightarrow> error + node list option" where
  \<comment> \<open>the test of \<open>visitFor\<close>: the elements to unroll over, or \<open>None\<close> for the runtime loop\<close>
  "for_array iterable sc =
     (if is_var_node iterable then
        (case scope_get sc (the (node_name iterable)) of
           None \<Rightarrow> Inl PyAttributeError
         | Some (Variable (Array es) ix) \<Rightarrow> Inr (Some es)
         | Some (Variable _ ix) \<Rightarrow> Inr None
         | Some (Param (Number _)) \<Rightarrow> Inr None
         | Some (Param (String _ _)) \<Rightarrow> Inr None
         | Some (Param (Return _)) \<Rightarrow> Inl Unmodelled
         | Some (Param _) \<Rightarrow> Inl PyAttributeError
         | Some (Builtin b) \<Rightarrow> Inl PyAttributeError)
      else Inr None)"

fun unroll :: "visitor \<Rightarrow> node \<Rightarrow> node \<Rightarrow> node list \<Rightarrow> scope \<Rightarrow> state \<Rightarrow> (error + string list) \<times> scope \<times> state" where
  \<comment> \<open>the loop over the elements: each round opens a scope below the previous round's\<close>
  "unroll vis pointer body [] sc st = (Inr [], sc, st)"
| "unroll vis pointer body (e # es) sc st =
     (case node_name pointer of
        None \<Rightarrow> (Inl PyAttributeError, child_scope sc, st)
      | Some pn \<Rightarrow>
          (case visit_children vis body (scope_assign pn e None (child_scope sc)) st of
             (Inl err, sc1, st1) \<Rightarrow> (Inl err, sc1, st1)
           | (Inr ls, sc1, st1) \<Rightarrow>
               (case unroll vis pointer body es sc1 st1 of
                  (Inl err, sc2, st2) \<Rightarrow> (Inl err, sc2, st2)
                | (Inr rest, sc2, st2) \<Rightarrow> (Inr (join term_sep ls # rest), sc2, st2))))"

definition has_brace :: "string \<Rightarrow> bool" where
  "has_brace s = (CHR ''{'' \<in> set s \<or> CHR ''}'' \<in> set s)"

definition reset_pointer :: "int \<Rightarrow> string" where
  "reset_pointer index = ''Set Global Variable At Index(A, '' @ show_int index @ '', 0)'' @ term_sep"

definition for_block :: "int \<Rightarrow> string list \<Rightarrow> string" where
  \<comment> \<open>\<open>block\<close> in \<open>visitFor\<close>: the body lines, the increment, the wait, the loop and the reset\<close>
  "for_block index ls = join term_sep (ls @
     [''Modify Global Variable At Index(A, '' @ show_int index @ '', Add, 1)'',
      min_wait, ''Loop'', reset_pointer index])"

definition visitFor :: "config \<Rightarrow> visitor \<Rightarrow> node \<Rightarrow> node \<Rightarrow> node \<Rightarrow> scope \<Rightarrow> state \<Rightarrow> result" where
  "visitFor cfg vis pointer iterable body sc st =
     (case for_array iterable sc of
        Inl e \<Rightarrow> (Inl e, sc, st)
      | Inr (Some elems) \<Rightarrow>
          (case unroll vis pointer body elems sc st of
             (Inl e, sc1, st1) \<Rightarrow> (Inl e, sc1, st1)
           | (Inr lines, sc1, st1) \<Rightarrow> (Inr (join term_sep lines), restore_depth (length sc) sc1, st1))
      | Inr None \<Rightarrow>
          (let index = global_index st; st0 = st\<lparr>global_index := global_index st + 1\<rparr> in
           case node_name pointer of
             None \<Rightarrow> (Inl PyAttributeError, child_scope sc, st0)
           | Some pn \<Rightarrow>
               (let for_scope = scope_assign pn (Number ''0'') (Some index) (child_scope sc) in
                and_then (vis iterable for_scope st0) (\<lambda>it sc1 st1.
                  and_then (vis pointer sc1 st1) (\<lambda>p sc2 st2.
                    case visit_children vis body sc2 st2 of
                      (Inl e, sc3, st3) \<Rightarrow> (Inl e, sc3, st3)
                    | (Inr ls, sc3, st3) \<Rightarrow>
                        if has_brace (it @ p) then (Inl Unmodelled, sc3, st3)
                        else
                          (Inr (reset_pointer index
                                @ ''//FOR STARTSkip If(Compare(Count Of('' @ it @ ''), ==, '' @ p @ ''), ''
                                @ show_int (int (count_term (for_block index ls))) @ '')'' @ term_sep
                                @ for_block index ls),
                           restore_depth (length sc) sc3,
                           st3\<lparr>curblock :=
                             (tabs cfg st3 @ ''//SKIP TOSkip If(Compare(Value In Array(Global Variable(A), ''
                               @ show_int index @ ''), !=, 0), {})'') # curblock st3\<rparr>))))))"

section \<open>Compile-time functions and calls\<close>

text \<open>
  The functions of class \<open>Builtin\<close> are plain Python functions, called as
  \<open>func(*node.args)\<close>: a wrong number of arguments raises \<open>TypeError\<close>. \<open>int(node)\<close> on an
  argument is taken to read the text of a \<open>Number\<close>, and iterating a node (\<open>*n\<close>) to yield
  the elements of an \<open>Array\<close>; both are \<open>TypeError\<close> on other kinds.
\<close>

definition py_range :: "int \<Rightarrow> int \<Rightarrow> int \<Rightarrow> int list" where
  \<comment> \<open>\<open>list(range(start, stop, step))\<close> for a step other than 0\<close>
  "py_range start stop step =
     (if step > 0 then map (\<lambda>k. start + int k * step) [0..<nat ((stop - start + step - 1) div step)]
      else if step < 0 then map (\<lambda>k. start + int k * step) [0..<nat ((start - stop - step - 1) div (- step))]
      else [])"

fun node_ints :: "node list \<Rightarrow> error + int list" where
  \<comment> \<open>\<open>list(map(int, args))\<close>\<close>
  "node_ints [] = Inr []"
| "node_ints (Number v # ns) =
     (case py_int v of
        None \<Rightarrow> Inl PyValueError
      | Some i \<Rightarrow> (case node_ints ns of Inl e \<Rightarrow> Inl e | Inr is \<Rightarrow> Inr (i # is)))"
| "node_ints (n # ns) = Inl PyTypeError"

definition Builtin_range :: "node list \<Rightarrow> error + node" where
  "Builtin_range args =
     (case node_ints args of
        Inl e \<Rightarrow> Inl e
      | Inr is \<Rightarrow>
          (let numbers = (\<lambda>xs. Inr (Array (map (\<lambda>i. Number (show_int i)) xs))) in
           case is of
             [stop] \<Rightarrow> numbers (py_range 0 stop 1)
           | [start, stop] \<Rightarrow> numbers (py_range start stop 1)
           | [start, stop, step] \<Rightarrow> if step = 0 then Inl PyValueError else numbers (py_range start stop step)
           | _ \<Rightarrow> Inl PyTypeError))"

definition Builtin_ceil :: "config \<Rightarrow> node \<Rightarrow> node list \<Rightarrow> node" where
  "Builtin_ceil cfg tp n =
     OWID ''Round To Integer'' (owid_args cfg ''Round To Integer'') (n @ [OWID ''Up'' (owid_args cfg ''Up'') []])"

definition Builtin_floor :: "config \<Rightarrow> node \<Rightarrow> node list \<Rightarrow> node" where
  "Builtin_floor cfg tp n =
     OWID ''Round To Integer'' (owid_args cfg ''Round To Integer'') (n @ [OWID ''Up'' (owid_args cfg ''Up'') []])"

definition iter_node :: "node \<Rightarrow> error + node list" where
  "iter_node n = (case n of Array es \<Rightarrow> Inr es | _ \<Rightarrow> Inl PyTypeError)"

definition call_builtin :: "config \<Rightarrow> builtin \<Rightarrow> node list \<Rightarrow> error + node" where
  \<comment> \<open>\<open>func(*node.args)\<close> for a function of class \<open>Builtin\<close>\<close>
  "call_builtin cfg b args =
     (case b of
        Range \<Rightarrow> Builtin_range args
      | Ceil \<Rightarrow>
          (case args of
             [tp, n] \<Rightarrow> (case iter_node n of Inl e \<Rightarrow> Inl e | Inr es \<Rightarrow> Inr (Builtin_ceil cfg tp es))
           | _ \<Rightarrow> Inl PyTypeError)
      | Floor \<Rightarrow>
          (case args of
             [tp, n] \<Rightarrow> (case iter_node n of Inl e \<Rightarrow> Inl e | Inr es \<Rightarrow> Inr (Builtin_floor cfg tp es))
           | _ \<Rightarrow> Inl PyTypeError))"

fun base_node :: "node \<Rightarrow> node" where
  "base_node (Call p a) = base_node p"
| "base_node (Item p i) = base_node p"
| "base_node n = n"

datatype callee = UserFunction "node list" "node list" | BuiltinFunction builtin | NotCallable

definition callee_of :: "binding \<Rightarrow> callee" where
  \<comment> \<open>\<open>func = base_node if type(base_node) != Variable else base_node.value\<close>, by kind\<close>
  "callee_of b =
     (case b of
        Variable (Function n ps body) ix \<Rightarrow> UserFunction ps body
      | Variable _ ix \<Rightarrow> NotCallable
      | Param (Function n ps body) \<Rightarrow> UserFunction ps body
      | Param _ \<Rightarrow> NotCallable
      | Builtin f \<Rightarrow> BuiltinFunction f)"

fun call_body :: "visitor \<Rightarrow> nat \<Rightarrow> node list \<Rightarrow> scope \<Rightarrow> state \<Rightarrow> result" where
  \<comment> \<open>\<open>for child in func.children\<close> with its handler; \<open>d\<close> is the depth of the call's scope\<close>
  "call_body vis d [] sc st = (Inr [], sc, st)"
| "call_body vis d (child # rest) sc st =
     (case vis child sc st of
        (Inr c, sc1, st1) \<Rightarrow>
          and_then (call_body vis d rest sc1 st1) (\<lambda>cs sc2 st2. (Inr (c @ cs), sc2, st2))
      | (Inl (ReturnError v), sc1, st1) \<Rightarrow>
          and_then (vis v (restore_depth d sc1) st1) (\<lambda>c sc2 st2.
            and_then (call_body vis d rest sc2 st2) (\<lambda>cs sc3 st3. (Inr (c @ cs), sc3, st3)))
      | (Inl e, sc1, st1) \<Rightarrow> (Inl e, sc1, st1))"

definition bind_params :: "string list \<Rightarrow> node list \<Rightarrow> namespace" where
  \<comment> \<open>\<open>dict(zip(names, args))\<close>\<close>
  "bind_params names args = fold (\<lambda>(k, a) ns. AList.update k (Param a) ns) (zip names args) []"

definition visitCall :: "config \<Rightarrow> visitor \<Rightarrow> node \<Rightarrow> node list \<Rightarrow> scope \<Rightarrow> state \<Rightarrow> result" where
  "visitCall cfg vis parent args sc st =
     (case node_name (base_node (Call parent args)) of
        None \<Rightarrow> (Inl PyAttributeError, sc, st)
      | Some base_name \<Rightarrow>
          (let func_name = (if is_var_node parent then Some (drop 5 (the (node_name parent))) else None) in
           case scope_get sc base_name of
             None \<Rightarrow> (Inl (NameError (''Undefined function '' @ quote @ drop 5 base_name @ quote)), sc, st)
           | Some b \<Rightarrow>
               (case callee_of b of
                  UserFunction params body \<Rightarrow>
                    (case func_name of
                       None \<Rightarrow> (Inl PyUnboundLocalError, sc, st)
                     | Some fname \<Rightarrow>
                         if length params \<noteq> length args then
                           (Inl (InvalidParameter (quote @ fname @ quote @ '' expected ''
                              @ show_int (int (length params)) @ '' arguments, received ''
                              @ show_int (int (length args)))), sc, st)
                         else if None \<in> set (map node_name params) then (Inl PyAttributeError, child_scope sc, st)
                         else
                           (case call_body vis (Suc (length sc)) body
                                   (bind_params (map (\<lambda>p. the (node_name p)) params) args # sc) st of
                              (Inl e, sc1, st1) \<Rightarrow> (Inl e, sc1, st1)
                            | (Inr code, sc1, st1) \<Rightarrow> (Inr code, restore_depth (length sc) sc1, st1)))
                | BuiltinFunction f \<Rightarrow>
                    (case call_builtin cfg f args of
                       Inl PyTypeError \<Rightarrow> (Inr [], sc, st)
                     | Inl e \<Rightarrow> (Inl e, sc, st)
                     | Inr res \<Rightarrow>
                         (case vis res sc st of
                            (Inl PyTypeError, sc1, st1) \<Rightarrow> (Inr [], restore_depth (length sc) sc1, st1)
                          | r \<Rightarrow> r))
                | NotCallable \<Rightarrow> (Inr [], sc, st))))"

section \<open>The dispatcher\<close>

definition visit_step :: "config \<Rightarrow> visitor \<Rightarrow> visitor" where
  \<comment> \<open>\<open>visit\<close>: the method named after the node's kind\<close>
  "visit_step cfg vis n sc st =
     (case n of
        Function name params body \<Rightarrow> visitFunction n sc st
      | Block xs \<Rightarrow> visitBlock vis n sc st
      | OWID name args chs \<Rightarrow> visitOWID vis name args chs sc st
      | Constant name \<Rightarrow> visitConstant name sc st
      | Compare l op r \<Rightarrow> visitCompare vis l op r sc st
      | Assign l op r \<Rightarrow> visitAssign vis l op r sc st
      | If c t f \<Rightarrow> visitIf cfg vis c t f sc st
      | While c b \<Rightarrow> visitWhile cfg vis c b sc st
      | For p i b \<Rightarrow> visitFor cfg vis p i b sc st
      | BinaryOp l op r \<Rightarrow> visitBinaryOp cfg vis l op r sc st
      | UnaryOp op r \<Rightarrow> visitUnaryOp vis op r sc st
      | GlobalVar name \<Rightarrow> visitGlobalVar vis name sc st
      | PlayerVar name player \<Rightarrow> visitPlayerVar vis name player sc st
      | String v chs \<Rightarrow> visitString vis v chs sc st
      | Number v \<Rightarrow> visitNumber v sc st
      | Vector chs \<Rightarrow> visitVector vis chs sc st
      | Array es \<Rightarrow> visitArray vis es sc st
      | Item p i \<Rightarrow> visitItem vis p i sc st
      | Call p args \<Rightarrow> visitCall cfg vis p args sc st
      | Return v \<Rightarrow> visitReturn v sc st)"

text \<open>
  Inlining a function body and lowering what a name is bound to are not structural, and
  Python's recursion is bounded: \<open>visit\<close> takes the depth still allowed, and raises
  \<open>RecursionError\<close> when it is used up.
\<close>

primrec visit :: "config \<Rightarrow> nat \<Rightarrow> visitor" where
  "visit cfg 0 = (\<lambda>n sc st. (Inl PyRecursionError, sc, st))"
| "visit cfg (Suc k) = visit_step cfg (visit cfg k)"

definition global_scope :: scope where
  \<comment> \<open>the scope that \<open>run\<close> builds from \<open>Builtin.__annotations__\<close>\<close>
  "global_scope = [[(''gvar_range'', Builtin Range), (''gvar_ceil'', Builtin Ceil), (''gvar_floor'', Builtin Floor)]]"

definition init_state :: state where
  \<comment> \<open>the counters and the block as \<open>__init__\<close> leaves them\<close>
  "init_state = \<lparr>global_index = 0, player_index = 0, indent_level = 0, curblock = []\<rparr>"

section \<open>A configuration to run the transpiler on\<close>

text \<open>
  Modelled from the spec: the arithmetic of \<open>Number\<close> literals, which \<open>visitBinaryOp\<close> takes
  from \<open>AST.py\<close> (absent). The spec has "the exact arithmetic result except division by
  zero", so the arithmetic here is exact, on decimal numerals. A literal is an optional
  \<open>-\<close>, digits, and optionally a point and digits; \<open>number_decimal\<close> reads it as a mantissa
  \<open>m\<close> and a scale \<open>k\<close>, and its value is the rational number \<open>m / 10 ^ k\<close>.
\<close>

definition digit_value :: "char \<Rightarrow> nat" where
  "digit_value c = (of_char c :: nat) - 48"

definition nat_of_digits :: "string \<Rightarrow> nat" where
  "nat_of_digits s = foldl (\<lambda>acc c. acc * 10 + digit_value c) 0 s"

definition number_decimal :: "string \<Rightarrow> (int \<times> nat) option" where
  "number_decimal s =
     (let neg = (take 1 s = ''-'');
          t = (if neg then drop 1 s else s);
          ip = takeWhile (\<lambda>c. c \<noteq> CHR ''.'') t;
          fp = drop 1 (dropWhile (\<lambda>c. c \<noteq> CHR ''.'') t)
      in if ip \<noteq> [] \<and> list_all is_digit ip \<and> list_all is_digit fp
         then Some ((if neg then - int (nat_of_digits (ip @ fp)) else int (nat_of_digits (ip @ fp))), length fp)
         else None)"

definition dec_value :: "int \<times> nat \<Rightarrow> rat" where
  "dec_value d = (case d of (m, k) \<Rightarrow> of_int m / 10 ^ k)"

definition number_value :: "string \<Rightarrow> rat option" where
  \<comment> \<open>the number that a literal denotes\<close>
  "number_value s = map_option dec_value (number_decimal s)"

text \<open>
  Modelled from the spec: the text of a result, \<open>'{}'.format(result)\<close>. The result is
  written without trailing zeros in the fraction, and without a point when it is whole.
\<close>

fun trim_zeros :: "int \<Rightarrow> nat \<Rightarrow> int \<times> nat" where
  "trim_zeros m 0 = (m, 0)"
| "trim_zeros m (Suc k) = (if m mod 10 = 0 then trim_zeros (m div 10) k else (m, Suc k))"

definition show_decimal :: "int \<times> nat \<Rightarrow> string" where
  "show_decimal d =
     (case d of (m, k) \<Rightarrow>
        let ds = digits (nat \<bar>m\<bar>);
            padded = replicate (Suc k - length ds) CHR ''0'' @ ds
        in (if m < 0 then ''-'' else [])
           @ take (length padded - k) padded
           @ (if k = 0 then [] else CHR ''.'' # drop (length padded - k) padded))"

text \<open>
  Modelled from the spec: the operators. A quotient \<open>a / b\<close> of integers is a decimal
  numeral exactly when the denominator of the reduced fraction has no prime factor but 2
  and 5; \<open>decimal_quotient\<close> then gives it, and \<open>None\<close> otherwise. Division and remainder
  by zero, and zero to a negative power, raise \<open>ZeroDivisionError\<close>, as Python's operators
  do; the remainder has the sign of the divisor, as Python's \<open>%\<close>. A quotient or a negative
  power that no decimal numeral equals, and a power whose exponent is not whole, are left
  undetermined.
\<close>

fun strip_factor :: "nat \<Rightarrow> nat \<Rightarrow> nat \<times> nat" where
  \<comment> \<open>\<open>d = p ^ c * r\<close> with \<open>r\<close> not divisible by \<open>p\<close>\<close>
  "strip_factor p d =
     (if 1 < p \<and> 0 < d \<and> d mod p = 0
      then (case strip_factor p (d div p) of (c, r) \<Rightarrow> (Suc c, r))
      else (0, d))"

declare strip_factor.simps [simp del]

definition decimal_quotient :: "int \<Rightarrow> int \<Rightarrow> (int \<times> nat) option" where
  "decimal_quotient a b =
     (let d = nat (\<bar>b\<bar> div gcd a b);
          (c2, r2) = strip_factor 2 d;
          (c5, r5) = strip_factor 5 r2
      in if r5 = 1 then Some (a * 10 ^ (c2 + c5) div b, c2 + c5) else None)"

definition quotient_arith :: "int \<Rightarrow> int \<Rightarrow> (int \<times> nat) arith" where
  "quotient_arith a b =
     (if b = 0 then ZeroDivisionError
      else case decimal_quotient a b of Some d \<Rightarrow> Value d | None \<Rightarrow> Undetermined)"

definition exact_op :: "string \<Rightarrow> int \<times> nat \<Rightarrow> int \<times> nat \<Rightarrow> (int \<times> nat) arith" where
  "exact_op op da db =
     (case (da, db) of ((m1, k1), (m2, k2)) \<Rightarrow>
        let K = max k1 k2; a = m1 * 10 ^ (K - k1); b = m2 * 10 ^ (K - k2) in
        if op = ''+'' then Value (a + b, K)
        else if op = ''-'' then Value (a - b, K)
        else if op = ''*'' then Value (m1 * m2, k1 + k2)
        else if op = ''%'' then (if b = 0 then ZeroDivisionError else Value (a mod b, K))
        else if op = ''/'' then quotient_arith a b
        else if op = ''^'' then
          (if m2 mod 10 ^ k2 = 0 then
             (let n = m2 div 10 ^ k2 in
              if 0 \<le> n then Value (m1 ^ nat n, k1 * nat n)
              else quotient_arith (10 ^ (k1 * nat (- n))) (m1 ^ nat (- n)))
           else Undetermined)
        else Undetermined)"

definition exact_arith :: "string \<Rightarrow> string \<Rightarrow> string \<Rightarrow> string arith" where
  "exact_arith op a b =
     (case (number_decimal a, number_decimal b) of
        (Some da, Some db) \<Rightarrow>
          (case exact_op op da db of
             Value (m, k) \<Rightarrow> Value (show_decimal (trim_zeros m k))
           | ZeroDivisionError \<Rightarrow> ZeroDivisionError
           | Undetermined \<Rightarrow> Undetermined)
      | _ \<Rightarrow> Undetermined)"

text \<open>
  Modelled from the spec: the instruction vocabulary of \<open>Workshop.py\<close> (absent), "instruction
  name \<rightarrow> (declared arity, per-position accepted value set or ANY)", for the one
  instruction the compile-time functions build; other names declare no argument.
\<close>

definition sample_args :: "string \<Rightarrow> argspec list" where
  "sample_args name =
     (if name = ''Round To Integer''
      then [ArgType ''Number'' [''ANY''], ArgType ''Rounding'' [''ANY'']] else [])"

definition cfg0 :: config where
  "cfg0 = \<lparr>indent_size = 3, number_op = exact_arith, owid_args = sample_args\<rparr>"

subsection \<open>Programs the properties are run on\<close>

definition nested_for_example :: node where
  \<comment> \<open>a loop over a collection known only at run time, whose body is one such loop with
      one instruction\<close>
  "nested_for_example =
     For (GlobalVar ''gvar_i'') (OWID ''all players'' [] [])
       (Block [For (GlobalVar ''gvar_j'') (OWID ''all players'' [] []) (Block [OWID ''abort'' [] []])])"



definition item_assign_example :: "node list" where
  \<comment> \<open>\<open>a = 0\<close>, \<open>arr = [1, 2, 3]\<close>, \<open>arr[2] = 9\<close>\<close>
  "item_assign_example =
     [Assign (GlobalVar ''gvar_a'') ''='' (Number ''0''),
      Assign (GlobalVar ''gvar_arr'') ''='' (Array [Number ''1'', Number ''2'', Number ''3'']),
      Assign (Item (GlobalVar ''gvar_arr'') (Number ''2'')) ''='' (Number ''9'')]"

definition nested_while_example :: node where
  \<comment> \<open>a while-loop whose body is one while-loop with one instruction\<close>
  "nested_while_example =
     While (Constant ''TRUE'') (Block [While (Constant ''FALSE'') (Block [OWID ''abort'' [] []])])"

definition return_example :: "node list" where
  \<comment> \<open>a function whose body has an instruction after its \<open>return\<close>, and a call of it\<close>
  "return_example =
     [Function ''f'' [] [Return (Some (Number ''1'')), OWID ''abort'' [] []],
      Call (GlobalVar ''gvar_f'') []]"

definition if_else_example :: node where
  \<comment> \<open>one instruction in each branch\<close>
  "if_else_example =
     If (Constant ''TRUE'') (Block [OWID ''abort'' [] []]) (Some (Block [OWID ''loop'' [] []]))"

definition arity_example :: "node list" where
  \<comment> \<open>a function of one parameter, called without argument\<close>
  "arity_example =
     [Function ''f'' [GlobalVar ''gvar_a''] [Return (Some (GlobalVar ''gvar_a''))],
      Call (GlobalVar ''gvar_f'') []]"

section \<open>Properties\<close>

subsection \<open>Sequencing and counting\<close>

lemma and_then_Inr [simp]: "and_then (Inr c, sc, st) k = k c sc st"
  by (simp add: and_then_def)

lemma and_then_Inl [simp]: "and_then (Inl e, sc, st) k = (Inl e, sc, st)"
  by (simp add: and_then_def)

subsection \<open>Compile-time rounding functions\<close>

text \<open>
  C8. The ceiling function wraps its argument in \<open>Round To Integer\<close> with the direction \<open>Up\<close>,
  and the floor function should do so with \<open>Down\<close>. In the source both bodies are the same:
  what \<open>Builtin.floor\<close> returns is what \<open>Builtin.ceil\<close> returns, with the direction \<open>Up\<close>.
\<close>

theorem floor_rounds_up:
  "Builtin_floor cfg tp [x] =
     OWID ''Round To Integer'' (owid_args cfg ''Round To Integer'') [x, OWID ''Up'' (owid_args cfg ''Up'') []]
   \<and> Builtin_floor cfg tp [x] = Builtin_ceil cfg tp [x]"
  by (simp add: Builtin_floor_def Builtin_ceil_def)

subsection \<open>Constant folding\<close>























text \<open>
  Each operator of \<open>exact_op\<close> computes the operation on the values of its operands.
\<close>

lemma number_value_SomeD:
  "number_value a = Some x \<Longrightarrow> \<exists>m k. number_decimal a = Some (m, k) \<and> x = of_int m / 10 ^ k"
  by (cases "number_decimal a") (auto simp: number_value_def dec_value_def)


lemma dec_zero_iff: "(of_int m :: rat) / 10 ^ k = 0 \<longleftrightarrow> m = 0"
  by simp






















lemma number_value_literals:
  "number_value ''7'' = Some 7" "number_value ''2'' = Some 2" "number_value ''3.5'' = Some (7 / 2)"
  "number_value ''1.5'' = Some (3 / 2)" "number_value ''2.5'' = Some (5 / 2)"
  "number_value ''1.0'' = Some 1" "number_value ''0.0'' = Some 0" "number_value ''-7'' = Some (- 7)"
  "number_value ''-1'' = Some (- 1)" "number_value ''0.5'' = Some (1 / 2)"
  "number_value ''0'' = Some 0" "number_value ''10'' = Some 10"
  "number_value ''1'' = Some 1" "number_value ''3'' = Some 3"
proof -
  have "number_decimal ''7'' = Some (7, 0)" "number_decimal ''2'' = Some (2, 0)"
    "number_decimal ''3.5'' = Some (35, 1)" "number_decimal ''1.5'' = Some (15, 1)"
    "number_decimal ''2.5'' = Some (25, 1)" "number_decimal ''1.0'' = Some (10, 1)"
    "number_decimal ''0.0'' = Some (0, 1)" "number_decimal ''-7'' = Some (- 7, 0)"
    "number_decimal ''-1'' = Some (- 1, 0)" "number_decimal ''0.5'' = Some (5, 1)"
    "number_decimal ''0'' = Some (0, 0)" "number_decimal ''10'' = Some (10, 0)"
    "number_decimal ''1'' = Some (1, 0)" "number_decimal ''3'' = Some (3, 0)"
    by code_simp+
  then show "number_value ''7'' = Some 7" "number_value ''2'' = Some 2" "number_value ''3.5'' = Some (7 / 2)"
  "number_value ''1.5'' = Some (3 / 2)" "number_value ''2.5'' = Some (5 / 2)"
  "number_value ''1.0'' = Some 1" "number_value ''0.0'' = Some 0" "number_value ''-7'' = Some (- 7)"
  "number_value ''-1'' = Some (- 1)" "number_value ''0.5'' = Some (1 / 2)"
  "number_value ''0'' = Some 0" "number_value ''10'' = Some 10"
  "number_value ''1'' = Some 1" "number_value ''3'' = Some 3"
    by (simp_all add: number_value_def dec_value_def)
qed

lemma fold_examples:
  "visit cfg0 (Suc (Suc 0)) (BinaryOp (Number ''7'') ''/'' (Number ''2'')) global_scope init_state
     = (Inr ''3.5'', global_scope, init_state)"
  "visit cfg0 (Suc (Suc 0)) (BinaryOp (Number ''1.5'') ''+'' (Number ''2.5'')) global_scope init_state
     = (Inr ''4'', global_scope, init_state)"
  "visit cfg0 (Suc (Suc 0)) (BinaryOp (Number ''2'') ''^'' (Number ''-1'')) global_scope init_state
     = (Inr ''0.5'', global_scope, init_state)"
  "visit cfg0 (Suc (Suc 0)) (BinaryOp (Number ''-7'') ''%'' (Number ''2'')) global_scope init_state
     = (Inr ''1'', global_scope, init_state)"
  "visit cfg0 (Suc (Suc 0)) (BinaryOp (Number ''1'') ''/'' (Number ''3'')) global_scope init_state
     = (Inl Unmodelled, global_scope, init_state)"
  by code_simp+

lemma power_10_mod_3: "(10::int) ^ k mod 3 = 1"
proof (induction k)
  case 0 show ?case by simp
next
  case (Suc k)
  have "(10::int) ^ Suc k mod 3 = ((10 mod 3) * (10 ^ k mod 3)) mod 3"
    by (simp only: power_Suc mod_mult_eq)
  then show ?case by (simp add: Suc)
qed

lemma third_not_decimal: "number_value r \<noteq> Some (1 / 3)"
proof
  assume "number_value r = Some (1 / 3)"
  from number_value_SomeD [OF this] obtain m k where "(1::rat) / 3 = of_int m / 10 ^ k" by blast
  then have "(10::rat) ^ k = 3 * of_int m" by (simp add: field_simps)
  then have "(of_int (10 ^ k) :: rat) = of_int (3 * m)" by simp
  then have "(10::int) ^ k = 3 * m" by (simp only: of_int_eq_iff)
  then have "(10::int) ^ k mod 3 = 0" by simp
  then show False by (simp add: power_10_mod_3)
qed


text \<open>
  C5. The claim as stated, "for every pair of literal operands and every operator", fails:
  the exact quotient of the literals \<open>1\<close> and \<open>3\<close> is one third, which no \<open>Number\<close> literal
  denotes. Whatever the arithmetic of \<open>Number\<close> is, visiting \<open>1 / 3\<close> does not return a
  literal equal to the exact result.
\<close>

theorem third_counterexample:
  "number_value ''1'' = Some 1 \<and> number_value ''3'' = Some 3
   \<and> \<not> (\<exists>cfg k sc st r.
          visit cfg k (BinaryOp (Number ''1'') ''/'' (Number ''3'')) sc st = (Inr r, sc, st)
          \<and> number_value r = Some (1 / 3))"
  using number_value_literals(13,14) third_not_decimal by blast

subsection \<open>Array literals\<close>

lemma null_elem_case:
  "null_elem e = (case e of String v cs \<Rightarrow> Constant ''Null'' | Constant n \<Rightarrow> Constant ''Null'' | _ \<Rightarrow> e)"
  by (cases e) simp_all

lemma title_Null: "title ''Null'' = ''Null''"
  by code_simp

text \<open>
  C10. An empty array literal renders as \<open>Empty Array\<close>. A non-empty one renders as a
  chain of \<open>Append To Array\<close>, one per element, over the texts of its elements, where an
  element that is a \<open>String\<close> or a \<open>Constant\<close> has been replaced by the constant \<open>Null\<close>
  (which renders as \<open>Null\<close>) and every other element is lowered as it is.
\<close>

theorem array_rendering:
  "visit cfg (Suc k) (Array []) sc st = (Inr ''Empty Array'', sc, st)
   \<and> (es \<noteq> [] \<longrightarrow>
        visit_list (visit cfg k)
          (map (\<lambda>e. case e of String v cs \<Rightarrow> Constant ''Null'' | Constant n \<Rightarrow> Constant ''Null'' | _ \<Rightarrow> e) es)
          sc st = (Inr texts, sc1, st1) \<longrightarrow>
        visit cfg (Suc k) (Array es) sc st =
          (Inr (concat (replicate (length es) ''Append To Array('') @ ''Empty Array, ''
                @ join ''), '' texts @ '')''), sc1, st1))
   \<and> visit cfg (Suc k) (Constant ''Null'') sc st = (Inr ''Null'', sc, st)"
proof -
  have m: "map null_elem es = map (\<lambda>e. case e of String v cs \<Rightarrow> Constant ''Null'' | Constant n \<Rightarrow> Constant ''Null'' | _ \<Rightarrow> e) es"
    by (simp add: null_elem_case)
  have a: "visit cfg (Suc k) (Array []) sc st = (Inr ''Empty Array'', sc, st)"
    by (simp add: visit_step_def visitArray_def)
  have c: "visit cfg (Suc k) (Constant ''Null'') sc st = (Inr ''Null'', sc, st)"
    by (simp add: visit_step_def visitConstant_def title_Null)
  have b: "visit cfg (Suc k) (Array es) sc st =
          (Inr (concat (replicate (length es) ''Append To Array('') @ ''Empty Array, ''
                @ join ''), '' texts @ '')''), sc1, st1)"
    if "es \<noteq> []" and "visit_list (visit cfg k)
          (map (\<lambda>e. case e of String v cs \<Rightarrow> Constant ''Null'' | Constant n \<Rightarrow> Constant ''Null'' | _ \<Rightarrow> e) es)
          sc st = (Inr texts, sc1, st1)"
    using that unfolding m [symmetric]
    by (simp add: visit_step_def visitArray_def Let_def)
  from a b c show ?thesis by blast
qed

theorem array_rendering_witness:
  "visit cfg0 (Suc 1) (Array [Number ''1'', String ''hi'' [], Constant ''TRUE'', Vector []]) global_scope init_state =
     (Inr ''Append To Array(Append To Array(Append To Array(Append To Array(Empty Array, 1), Null), Null), Vector())'',
      global_scope, init_state)"
proof -
  let ?es = "[Number ''1'', String ''hi'' [], Constant ''TRUE'', Vector []]"
  have h1: "?es \<noteq> []" by simp
  have h2: "visit_list (visit cfg0 1)
          (map (\<lambda>e. case e of String v cs \<Rightarrow> Constant ''Null'' | Constant n \<Rightarrow> Constant ''Null'' | _ \<Rightarrow> e) ?es)
          global_scope init_state = (Inr [''1'', ''Null'', ''Null'', ''Vector()''], global_scope, init_state)"
    by code_simp
  from array_rendering [where cfg = cfg0 and k = 1 and es = ?es and sc = global_scope and st = init_state
      and texts = "[''1'', ''Null'', ''Null'', ''Vector()'']" and ?sc1.0 = global_scope and ?st1.0 = init_state]
  have "visit cfg0 (Suc 1) (Array ?es) global_scope init_state =
          (Inr (concat (replicate (length ?es) ''Append To Array('') @ ''Empty Array, ''
                @ join ''), '' [''1'', ''Null'', ''Null'', ''Vector()''] @ '')''), global_scope, init_state)"
    using h1 h2 by blast
  then show ?thesis by simp
qed

subsection \<open>Runtime for-loops\<close>

lemma count_term_sep: "count_term (x @ term_sep @ y) = count_term x + 1 + count_term y"
  by (induction x rule: count_term.induct) (simp_all add: term_sep_def nl_def)

lemma count_term_none: "CHR '';'' \<notin> set s \<Longrightarrow> count_term s = 0"
  by (induction s rule: count_term.induct) auto

lemma count_term_join:
  "zs \<noteq> [] \<Longrightarrow> count_term (join term_sep zs) = sum_list (map count_term zs) + (length zs - 1)"
proof (induction term_sep zs rule: join.induct)
  case 1
  then show ?case by simp
next
  case (2 x)
  then show ?case by simp
next
  case (3 x y ys)
  then show ?case by (simp add: count_term_sep)
qed

lemma digit_char_no_semi: "d < 10 \<Longrightarrow> digit_char d \<noteq> CHR '';''"
proof -
  assume "d < 10"
  then have "d \<in> {0,1,2,3,4,5,6,7,8,9}" by auto
  then show ?thesis by (auto simp: digit_char_def)
qed

lemma digits_no_semi: "CHR '';'' \<notin> set (digits n)"
proof (induction n rule: digits.induct)
  case (1 n)
  show ?case
  proof (cases "n < 10")
    case True
    then show ?thesis using digit_char_no_semi [of n] by (simp add: digits.simps [of n])
  next
    case False
    then show ?thesis using 1 digit_char_no_semi [of "n mod 10"] by (simp add: digits.simps [of n])
  qed
qed

lemma show_int_no_semi: "CHR '';'' \<notin> set (show_int i)"
  by (simp add: show_int_def digits_no_semi)

lemma count_for_block:
  "count_term (for_block index ls) = (\<Sum>l\<leftarrow>ls. Suc (count_term l)) + 4"
proof -
  define inc where "inc = ''Modify Global Variable At Index(A, '' @ show_int index @ '', Add, 1)''"
  define body where "body = ''Set Global Variable At Index(A, '' @ show_int index @ '', 0)''"
  have nb: "CHR '';'' \<notin> set body"
    using show_int_no_semi [of index] by (simp add: body_def)
  have r: "count_term (reset_pointer index) = 1"
    using count_term_sep [of body "[]"] count_term_none [OF nb]
    by (simp add: reset_pointer_def body_def)
  have m: "count_term inc = 0"
    using show_int_no_semi [of index] by (intro count_term_none) (simp add: inc_def)
  have w: "count_term min_wait = 0"
    by (intro count_term_none) (simp add: min_wait_def)
  have l: "count_term ''Loop'' = 0"
    by simp
  have s: "sum_list (map count_term ls) + length ls = (\<Sum>l\<leftarrow>ls. Suc (count_term l))"
    by (induction ls) simp_all
  have "count_term (join term_sep (ls @ [inc, min_wait, ''Loop'', reset_pointer index]))
        = sum_list (map count_term (ls @ [inc, min_wait, ''Loop'', reset_pointer index]))
          + (length (ls @ [inc, min_wait, ''Loop'', reset_pointer index]) - 1)"
    by (rule count_term_join) simp
  also have "\<dots> = sum_list (map count_term ls) + length ls + 4"
    by (simp add: r m w l del: count_term.simps)
  finally show ?thesis
    using s by (simp add: for_block_def inc_def)
qed


text \<open>
  For a loop over a collection that is not a name bound to an array literal, \<open>visitFor\<close>
  draws one global index for the position counter (the index is the counter's value on
  entry, and the lowering of the iterable, the pointer and the body starts from the counter
  plus one). The offset of the initial \<open>Skip If\<close> is the number of terminators in the
  joined block: for each lowered body line the terminators inside it and one more, and four
  for the increment, the wait, the loop and the reset.
\<close>

lemma for_runtime_loop:
  assumes "for_array iterable sc = Inr None"
    and "node_name pointer = Some pn"
    and "vis iterable (scope_assign pn (Number ''0'') (Some (global_index st)) (child_scope sc))
           (st\<lparr>global_index := global_index st + 1\<rparr>) = (Inr it, sc1, st1)"
    and "vis pointer sc1 st1 = (Inr p, sc2, st2)"
    and "visit_children vis body sc2 st2 = (Inr ls, sc3, st3)"
    and "\<not> has_brace (it @ p)"
  shows "visitFor cfg vis pointer iterable body sc st =
      (Inr (''Set Global Variable At Index(A, '' @ show_int (global_index st) @ '', 0)'' @ term_sep
            @ ''//FOR STARTSkip If(Compare(Count Of('' @ it @ ''), ==, '' @ p @ ''), ''
            @ show_int (int ((\<Sum>l\<leftarrow>ls. Suc (count_term l)) + 4)) @ '')'' @ term_sep
            @ join term_sep (ls @
                [''Modify Global Variable At Index(A, '' @ show_int (global_index st) @ '', Add, 1)'',
                 min_wait, ''Loop'',
                 ''Set Global Variable At Index(A, '' @ show_int (global_index st) @ '', 0)'' @ term_sep])),
       restore_depth (length sc) sc3,
       st3\<lparr>curblock :=
         (tabs cfg st3 @ ''//SKIP TOSkip If(Compare(Value In Array(Global Variable(A), ''
           @ show_int (global_index st) @ ''), !=, 0), {})'') # curblock st3\<rparr>)"
proof -
  have v: "visitFor cfg vis pointer iterable body sc st =
      (Inr (reset_pointer (global_index st)
            @ ''//FOR STARTSkip If(Compare(Count Of('' @ it @ ''), ==, '' @ p @ ''), ''
            @ show_int (int (count_term (for_block (global_index st) ls))) @ '')'' @ term_sep
            @ for_block (global_index st) ls),
       restore_depth (length sc) sc3,
       st3\<lparr>curblock :=
         (tabs cfg st3 @ ''//SKIP TOSkip If(Compare(Value In Array(Global Variable(A), ''
           @ show_int (global_index st) @ ''), !=, 0), {})'') # curblock st3\<rparr>)"
    using assms by (simp add: visitFor_def Let_def)
  show ?thesis
    using v unfolding count_for_block by (simp add: for_block_def reset_pointer_def)
qed

text \<open>
  C7. The offset of the initial \<open>Skip If\<close> should be the number of statements of the lowered
  body plus four. Where a lowered body line ends with a terminator, as the lowering of an
  inner runtime loop does, the joined block holds an empty line after it, which the count
  takes for a statement: for a loop whose body is one inner loop with one instruction, the
  outer offset is 12, over the 7 instructions of the inner loop, the empty line, and the
  four of the outer loop.
\<close>

theorem nested_for_offset:
  "fst (visit cfg0 4 nested_for_example global_scope init_state) =
     Inr (''Set Global Variable At Index(A, 0, 0)'' @ term_sep
          @ ''//FOR STARTSkip If(Compare(Count Of(All Players()), ==, Value In Array(Global Variable(A), 0)), 12)'' @ term_sep
          @ ''Set Global Variable At Index(A, 1, 0)'' @ term_sep
          @ ''//FOR STARTSkip If(Compare(Count Of(All Players()), ==, Value In Array(Global Variable(A), 1)), 5)'' @ term_sep
          @ ''Abort()'' @ term_sep
          @ ''Modify Global Variable At Index(A, 1, Add, 1)'' @ term_sep
          @ ''Wait(0.016, Ignore Condition)'' @ term_sep
          @ ''Loop'' @ term_sep
          @ ''Set Global Variable At Index(A, 1, 0)'' @ term_sep
          @ term_sep
          @ ''Modify Global Variable At Index(A, 0, Add, 1)'' @ term_sep
          @ ''Wait(0.016, Ignore Condition)'' @ term_sep
          @ ''Loop'' @ term_sep
          @ ''Set Global Variable At Index(A, 0, 0)'' @ term_sep)"
  by code_simp

subsection \<open>Slots of variables\<close>










subsection \<open>Assignment to an element\<close>

text \<open>
  C2. Assignment to \<open>arr[k]\<close> should replace element \<open>k\<close> and store the whole array again at
  the slot of \<open>arr\<close>. Lowering \<open>a = 0; arr = [1, 2, 3]; arr[2] = 9\<close> replaces the element, but
  the third store goes to index 2, the element's position, where \<open>arr\<close> has slot 1, and
  \<open>arr\<close> is bound to index 2 afterwards.
\<close>

theorem item_assign_slot:
  "visit_list (visit cfg0 3) item_assign_example global_scope init_state =
   (Inr [''Set Global Variable At Index(A, 0, 0)'',
         ''Set Global Variable At Index(A, 1, Append To Array(Append To Array(Append To Array(Empty Array, 1), 2), 3))'',
         ''Set Global Variable At Index(A, 2, Append To Array(Append To Array(Append To Array(Empty Array, 1), 2), 9))''],
    [[(''gvar_range'', Builtin Range), (''gvar_ceil'', Builtin Ceil), (''gvar_floor'', Builtin Floor),
      (''gvar_a'', Variable (Number ''0'') (Some 0)),
      (''gvar_arr'', Variable (Array [Number ''1'', Number ''2'', Number ''9'']) (Some 2))]],
    \<lparr>global_index = 2, player_index = 0, indent_level = 0, curblock = []\<rparr>)"
  by code_simp

subsection \<open>While\<close>

text \<open>
  C3. The offset of the \<open>Skip If\<close> of a while-loop should be the number of statements of the
  lowered body plus two. For a loop whose body is one inner loop the lowered body has four
  statements, and the offset emitted is 3: the number of body nodes plus two.
\<close>

theorem while_offset_counts_nodes:
  "fst (visit cfg0 4 nested_while_example global_scope init_state) =
     Inr (''Skip If(Not(True), 3)'' @ term_sep
          @ ''Skip If(Not(False), 3)'' @ term_sep
          @ ''Abort()'' @ term_sep
          @ ''Wait(0.016, Ignore Condition)'' @ term_sep
          @ ''Loop If(False)'' @ term_sep
          @ ''Wait(0.016, Ignore Condition)'' @ term_sep
          @ ''Loop If(True)'')"
  by code_simp

subsection \<open>Return in an inlined function\<close>

text \<open>
  C4. Lowering of an inlined body should stop at the first \<open>Return\<close>. For a function whose
  body is \<open>return 1\<close> followed by an instruction, the call lowers to the returned value
  followed by the code of the instruction: the loop over the body goes on after the handler.
\<close>

theorem return_does_not_halt:
  "fst (visit_list (visit cfg0 3) return_example global_scope init_state) = Inr [[], ''1Abort()'']"
  by code_simp

subsection \<open>If and else\<close>

text \<open>
  C6. For an if/else with one statement in each branch the \<open>Skip If\<close> offset should be 2 and
  the true branch should be followed by \<open>Skip(1)\<close> on a line of its own. The offset emitted
  is 1, and the statement of the true branch is emitted without terminator, so that the
  \<open>Skip\<close> follows it on the same line.
\<close>

theorem if_else_offsets:
  "fst (visit cfg0 3 if_else_example global_scope init_state) =
     Inr (''Skip If(Not(True), 1)'' @ term_sep @ ''Abort()'' @ ''Skip(1)'' @ term_sep @ ''Loop()'' @ term_sep)"
  by code_simp

subsection \<open>Arity of calls\<close>

text \<open>
  C9. A call with a wrong number of arguments should raise an error. A user-defined function
  called with the wrong number raises \<open>InvalidParameter\<close>; a compile-time function called
  so (\<open>ceil\<close> with one argument, \<open>range\<close> with none) raises nothing and lowers to the empty
  text, with scope and state unchanged.
\<close>

theorem builtin_arity_swallowed:
  "visit cfg0 3 (Call (GlobalVar ''gvar_ceil'') [Number ''1.5'']) global_scope init_state =
     (Inr [], global_scope, init_state)
   \<and> visit cfg0 3 (Call (GlobalVar ''gvar_range'') []) global_scope init_state =
     (Inr [], global_scope, init_state)
   \<and> fst (visit_list (visit cfg0 3) arity_example global_scope init_state) =
     Inl (InvalidParameter (quote @ ''f'' @ quote @ '' expected 1 arguments, received 0''))"
  by code_simp

end
